theory Spec2Isabelle
  imports Complex_Main
begin

section \<open>The funnel potential\<close>

text \<open>
  The notebook defines the class \<open>TwoDFunnel\<close>. Its class method \<open>potential\<close>
  evaluates the in-plane energy with numpy; the arithmetic is read here over the
  real numbers (\<open>**\<close> with a literal integer exponent is a power, \<open>np.sqrt\<close>,
  \<open>np.cos\<close> and \<open>np.exp\<close> are the real functions). The arguments are
  scalars; numpy applies the same formula elementwise to arrays.
\<close>

definition potential :: "real \<Rightarrow> real \<Rightarrow> real" where
  "potential x y =
     2 * cos (2 * sqrt (x\<^sup>2 + y\<^sup>2)) - 8 * exp (- (x\<^sup>2 + y\<^sup>2))
       + 0.2 * ((x / 8)\<^sup>2 + (y / 8)\<^sup>2) ^ 3"

text \<open>
  The closed-form energy of the specification, written from its words: the three
  in-plane terms and the harmonic restraint on \<open>z\<close>.
\<close>

definition E_spec :: "real \<Rightarrow> real \<Rightarrow> real \<Rightarrow> real" where
  "E_spec x y z =
     2 * cos (2 * sqrt (x\<^sup>2 + y\<^sup>2)) - 8 * exp (- (x\<^sup>2 + y\<^sup>2))
       + 0.2 * ((x / 8)\<^sup>2 + (y / 8)\<^sup>2) ^ 3 + 1000.0 * z\<^sup>2"

section \<open>The force-field expression\<close>

text \<open>
  \<open>TwoDFunnel.__init__\<close> builds the force-field expression as a string and
  passes it to the constructor of the engine's \<open>CustomExternalForce\<close>.
\<close>

definition expression :: string where
  "expression = ''2*cos(2*sqrt(x^2+y^2)) - 8*exp(-(x^2+y^2)) + 0.2*((x/8)^2+(y/8)^2)^3 + 1000.0 * z^2''"

text \<open>
  Modelled from the spec: the external force evaluator, which is not part of the
  repository. The specification gives what it accepts: the operators \<open>+ - * / ^\<close>,
  the functions \<open>sqrt\<close>, \<open>cos\<close>, \<open>exp\<close>, and the per-particle coordinates
  \<open>x\<close>, \<open>y\<close>, \<open>z\<close>, over the reals. The grammar is the usual one, read by
  precedence climbing as the engine's expression parser does: \<open>^\<close> binds tightest
  and associates to the right, then unary minus, then \<open>*\<close> and \<open>/\<close>, then \<open>+\<close>
  and \<open>-\<close>, the last four associating to the left.

  A number token \<open>Number m d\<close> is the decimal with digits \<open>m\<close> and \<open>d\<close> places
  after the point, the value \<open>m / 10 ^ d\<close>.
\<close>

datatype token =
    Number nat nat
  | Name string
  | Operator char
  | LeftParen
  | RightParen

definition is_digit :: "char \<Rightarrow> bool" where
  "is_digit c \<longleftrightarrow> 48 \<le> (of_char c :: nat) \<and> (of_char c :: nat) \<le> 57"

definition is_letter :: "char \<Rightarrow> bool" where
  "is_letter c \<longleftrightarrow> (97 \<le> (of_char c :: nat) \<and> (of_char c :: nat) \<le> 122)
                  \<or> (65 \<le> (of_char c :: nat) \<and> (of_char c :: nat) \<le> 90)"

definition is_operator :: "char \<Rightarrow> bool" where
  "is_operator c \<longleftrightarrow> c \<in> set ''+-*/^''"

fun lex_digits :: "nat \<Rightarrow> nat \<Rightarrow> string \<Rightarrow> nat \<times> nat \<times> string" where
  "lex_digits m d [] = (m, d, [])"
| "lex_digits m d (c # cs) =
     (if is_digit c then lex_digits (10 * m + (of_char c - 48)) (Suc d) cs else (m, d, c # cs))"

definition lex_number :: "string \<Rightarrow> nat \<times> nat \<times> string" where
  "lex_number cs =
     (case lex_digits 0 0 cs of
        (m, d, CHR ''.'' # rest) \<Rightarrow> lex_digits m 0 rest
      | (m, d, rest) \<Rightarrow> (m, 0, rest))"

fun lex_name :: "string \<Rightarrow> string \<times> string" where
  "lex_name [] = ([], [])"
| "lex_name (c # cs) =
     (if is_letter c \<or> is_digit c then (case lex_name cs of (n, rest) \<Rightarrow> (c # n, rest))
      else ([], c # cs))"

fun tokenize :: "nat \<Rightarrow> string \<Rightarrow> token list option" where
  "tokenize fuel [] = Some []"
| "tokenize 0 (c # cs) = None"
| "tokenize (Suc fuel) (c # cs) =
     (if c = CHR '' '' then tokenize fuel cs
      else if c = CHR ''('' then map_option ((#) LeftParen) (tokenize fuel cs)
      else if c = CHR '')'' then map_option ((#) RightParen) (tokenize fuel cs)
      else if is_operator c then map_option ((#) (Operator c)) (tokenize fuel cs)
      else if is_digit c then
        (case lex_number (c # cs) of (m, d, rest) \<Rightarrow> map_option ((#) (Number m d)) (tokenize fuel rest))
      else if is_letter c then
        (case lex_name (c # cs) of (n, rest) \<Rightarrow> map_option ((#) (Name n)) (tokenize fuel rest))
      else None)"


datatype expr =
    Constant nat nat
  | Variable string
  | Function string expr
  | Negate expr
  | Add expr expr
  | Subtract expr expr
  | Multiply expr expr
  | Divide expr expr
  | Power expr expr

definition precedence :: "char \<Rightarrow> nat" where
  "precedence c = (if c = CHR ''+'' \<or> c = CHR ''-'' then 0
                   else if c = CHR ''*'' \<or> c = CHR ''/'' then 1 else 3)"

definition left_associative :: "char \<Rightarrow> bool" where
  "left_associative c \<longleftrightarrow> c \<noteq> CHR ''^''"

definition operation :: "char \<Rightarrow> expr \<Rightarrow> expr \<Rightarrow> expr" where
  "operation c a b =
     (if c = CHR ''+'' then Add a b else if c = CHR ''-'' then Subtract a b
      else if c = CHR ''*'' then Multiply a b else if c = CHR ''/'' then Divide a b
      else Power a b)"

fun parse_precedence :: "nat \<Rightarrow> nat \<Rightarrow> token list \<Rightarrow> (expr \<times> token list) option"
  and parse_operators :: "nat \<Rightarrow> nat \<Rightarrow> expr \<Rightarrow> token list \<Rightarrow> (expr \<times> token list) option" where
  "parse_precedence 0 p ts = None"
| "parse_precedence (Suc fuel) p [] = None"
| "parse_precedence (Suc fuel) p (Number m d # ts) = parse_operators fuel p (Constant m d) ts"
| "parse_precedence (Suc fuel) p (Name f # LeftParen # ts) =
     (case parse_precedence fuel 0 ts of
        Some (a, RightParen # rest) \<Rightarrow> parse_operators fuel p (Function f a) rest
      | _ \<Rightarrow> None)"
| "parse_precedence (Suc fuel) p (Name v # ts) = parse_operators fuel p (Variable v) ts"
| "parse_precedence (Suc fuel) p (LeftParen # ts) =
     (case parse_precedence fuel 0 ts of
        Some (a, RightParen # rest) \<Rightarrow> parse_operators fuel p a rest
      | _ \<Rightarrow> None)"
| "parse_precedence (Suc fuel) p (Operator c # ts) =
     (if c = CHR ''-'' then
        (case parse_precedence fuel 2 ts of
           Some (a, rest) \<Rightarrow> parse_operators fuel p (Negate a) rest
         | None \<Rightarrow> None)
      else None)"
| "parse_precedence (Suc fuel) p (RightParen # ts) = None"
| "parse_operators 0 p lhs ts = None"
| "parse_operators (Suc fuel) p lhs (Operator c # ts) =
     (if precedence c < p then Some (lhs, Operator c # ts)
      else
        (case parse_precedence fuel
                (if left_associative c then precedence c + 1 else precedence c) ts of
           Some (rhs, rest) \<Rightarrow> parse_operators fuel p (operation c lhs rhs) rest
         | None \<Rightarrow> None))"
| "parse_operators (Suc fuel) p lhs ts = Some (lhs, ts)"

definition parse :: "string \<Rightarrow> expr option" where
  "parse s =
     (case tokenize (length s) s of
        None \<Rightarrow> None
      | Some ts \<Rightarrow>
          (case parse_precedence (2 * length ts + 1) 0 ts of
             Some (e, []) \<Rightarrow> Some e
           | _ \<Rightarrow> None))"


text \<open>
  The value of an expression. \<open>None\<close> is an undefined result: an unknown name,
  a square root of a negative number, a division by zero, a power that is not a
  real number.
\<close>

definition power_value :: "real \<Rightarrow> real \<Rightarrow> real option" where
  "power_value b e =
     (if e = of_int \<lfloor>e\<rfloor> then
        (if 0 \<le> e then Some (b ^ nat \<lfloor>e\<rfloor>)
         else if b = 0 then None else Some (1 / b ^ nat \<lfloor>- e\<rfloor>))
      else if 0 < b then Some (b powr e)
      else if b = 0 \<and> 0 < e then Some 0
      else None)"

definition function_value :: "string \<Rightarrow> real \<Rightarrow> real option" where
  "function_value f a =
     (if f = ''sqrt'' then (if 0 \<le> a then Some (sqrt a) else None)
      else if f = ''cos'' then Some (cos a)
      else if f = ''exp'' then Some (exp a)
      else None)"

definition binary :: "(real \<Rightarrow> real \<Rightarrow> real option) \<Rightarrow> real option \<Rightarrow> real option \<Rightarrow> real option" where
  "binary f a b = (case a of None \<Rightarrow> None | Some u \<Rightarrow> (case b of None \<Rightarrow> None | Some v \<Rightarrow> f u v))"

fun evaluate :: "(string \<Rightarrow> real option) \<Rightarrow> expr \<Rightarrow> real option" where
  "evaluate env (Constant m d) = Some (real m / 10 ^ d)"
| "evaluate env (Variable v) = env v"
| "evaluate env (Function f a) =
     (case evaluate env a of None \<Rightarrow> None | Some u \<Rightarrow> function_value f u)"
| "evaluate env (Negate a) = map_option uminus (evaluate env a)"
| "evaluate env (Add a b) = binary (\<lambda>u v. Some (u + v)) (evaluate env a) (evaluate env b)"
| "evaluate env (Subtract a b) = binary (\<lambda>u v. Some (u - v)) (evaluate env a) (evaluate env b)"
| "evaluate env (Multiply a b) = binary (\<lambda>u v. Some (u * v)) (evaluate env a) (evaluate env b)"
| "evaluate env (Divide a b) =
     binary (\<lambda>u v. if v = 0 then None else Some (u / v)) (evaluate env a) (evaluate env b)"
| "evaluate env (Power a b) = binary power_value (evaluate env a) (evaluate env b)"

text \<open>
  The energy the evaluator assigns to a particle at \<open>(x, y, z)\<close> for an expression
  given as a string; there are no further per-particle parameters.
\<close>

definition particle :: "real \<Rightarrow> real \<Rightarrow> real \<Rightarrow> string \<Rightarrow> real option" where
  "particle x y z v =
     (if v = ''x'' then Some x else if v = ''y'' then Some y else if v = ''z'' then Some z
      else None)"

definition energy :: "string \<Rightarrow> real \<Rightarrow> real \<Rightarrow> real \<Rightarrow> real option" where
  "energy s x y z = (case parse s of None \<Rightarrow> None | Some e \<Rightarrow> evaluate (particle x y z) e)"

text \<open>The syntax tree of the force-field expression.\<close>

definition funnel_tree :: expr where
  "funnel_tree =
     Add (Add (Subtract
              (Multiply (Constant 2 0)
                (Function ''cos''
                  (Multiply (Constant 2 0)
                    (Function ''sqrt''
                      (Add (Power (Variable ''x'') (Constant 2 0))
                        (Power (Variable ''y'') (Constant 2 0)))))))
              (Multiply (Constant 8 0)
                (Function ''exp''
                  (Negate
                    (Add (Power (Variable ''x'') (Constant 2 0))
                      (Power (Variable ''y'') (Constant 2 0)))))))
         (Multiply (Constant 2 1)
           (Power
             (Add (Power (Divide (Variable ''x'') (Constant 8 0))
                    (Constant 2 0))
               (Power (Divide (Variable ''y'') (Constant 8 0))
                 (Constant 2 0)))
             (Constant 3 0))))
    (Multiply (Constant 10000 1) (Power (Variable ''z'') (Constant 2 0)))"

section \<open>Starting positions: the rejection loop\<close>

text \<open>
  A position is a row of three reals. The random generator is read as the table of
  its outputs: \<open>draw k i\<close> is row \<open>i\<close> of the \<open>k\<close>-th call of
  \<open>np.random.rand(nParticles, 3)\<close>, the first call having number \<open>0\<close>.
\<close>

type_synonym vec3 = "real \<times> real \<times> real"

type_synonym rng = "nat \<Rightarrow> nat \<Rightarrow> vec3"

definition np_random_rand :: "rng \<Rightarrow> nat \<Rightarrow> nat \<Rightarrow> vec3 list" where
  "np_random_rand draw k n = map (draw k) [0..<n]"

text \<open>
  One row of \<open>np.random.rand(nParticles, 3) * np.array([20, 20, 0]) + np.array([-10, -10, 0])\<close>.
\<close>

definition candidate :: "vec3 \<Rightarrow> vec3" where
  "candidate u = (case u of (a, b, c) \<Rightarrow> (a * 20 + (- 10), b * 20 + (- 10), c * 0 + 0))"

definition candidates :: "rng \<Rightarrow> nat \<Rightarrow> nat \<Rightarrow> vec3 list" where
  "candidates draw k n = map candidate (np_random_rand draw k n)"

text \<open>\<open>r = np.array([10] * nParticles)\<close>\<close>

definition r_array :: "nat \<Rightarrow> real list" where
  "r_array n = replicate n 10"

text \<open>One entry of \<open>np.sum(startingPositions**2, axis=1)\<close>.\<close>

definition sum_squares :: "vec3 \<Rightarrow> real" where
  "sum_squares p = (case p of (x, y, z) \<Rightarrow> x\<^sup>2 + y\<^sup>2 + z\<^sup>2)"

text \<open>
  \<open>np.isclose(a, b)\<close> with its default tolerances \<open>rtol = 1e-05\<close> and
  \<open>atol = 1e-08\<close>: \<open>|a - b| <= atol + rtol * |b|\<close>.
\<close>

definition rtol :: real where
  "rtol = 1 / 100000"

definition atol :: real where
  "atol = 1 / 100000000"

definition isclose :: "real \<Rightarrow> real \<Rightarrow> bool" where
  "isclose a b \<longleftrightarrow> \<bar>a - b\<bar> \<le> atol + rtol * \<bar>b\<bar>"

text \<open>\<open>mask = np.isclose(np.sum(startingPositions**2, axis=1), r**2)\<close>\<close>

definition close_mask :: "vec3 list \<Rightarrow> real list \<Rightarrow> bool list" where
  "close_mask sp r = map2 (\<lambda>p ri. isclose (sum_squares p) (ri\<^sup>2)) sp r"

definition np_all :: "bool list \<Rightarrow> bool" where
  "np_all bs = list_all (\<lambda>b. b) bs"

text \<open>
  \<open>startingPositions * ~mask + prev_startingPositions * mask\<close>, the mask reshaped
  to a column so that it multiplies whole rows; a boolean factor is \<open>1\<close> or \<open>0\<close>.
\<close>

definition row_times :: "vec3 \<Rightarrow> bool \<Rightarrow> vec3" where
  "row_times p m = (case p of (x, y, z) \<Rightarrow> (x * of_bool m, y * of_bool m, z * of_bool m))"

definition row_plus :: "vec3 \<Rightarrow> vec3 \<Rightarrow> vec3" where
  "row_plus p q = (case p of (x, y, z) \<Rightarrow> case q of (x', y', z') \<Rightarrow> (x + x', y + y', z + z'))"

definition masked_overwrite :: "bool list \<Rightarrow> vec3 list \<Rightarrow> vec3 list \<Rightarrow> vec3 list" where
  "masked_overwrite mask_arr new prev =
     map2 row_plus (map2 row_times new (map Not mask_arr)) (map2 row_times prev mask_arr)"

text \<open>
  The \<open>while True\<close> loop. \<open>k\<close> numbers the next call of the generator. The loop
  has no bound, so it is a partial function: \<open>None\<close> is a run that never leaves
  the loop. (\<open>mask_arr\<close> is the source's \<open>mask\<close>, a name HOL already uses.)
\<close>

partial_function (option) reject_loop :: "rng \<Rightarrow> nat \<Rightarrow> nat \<Rightarrow> vec3 list \<Rightarrow> vec3 list option" where
  "reject_loop draw n k startingPositions =
     (let mask_arr = close_mask startingPositions (r_array n) in
      if np_all mask_arr then Some startingPositions
      else reject_loop draw n (Suc k)
             (masked_overwrite mask_arr (candidates draw k n) startingPositions))"

declare reject_loop.simps [code]

text \<open>
  The whole initialisation for a particle count \<open>nParticles\<close>, a Python integer.
  \<open>[10] * nParticles\<close> is the empty list for a negative count, and
  \<open>np.random.rand\<close> raises \<open>ValueError\<close> on a negative dimension. The
  exceptions Python and numpy raise in the notebook are the values of \<open>error\<close>.
\<close>

datatype error = ValueError | TypeError | ZeroDivisionError

definition starting_positions :: "rng \<Rightarrow> int \<Rightarrow> (error + vec3 list) option" where
  "starting_positions draw nParticles =
     (if nParticles < 0 then Some (Inl ValueError)
      else map_option Inr
        (reject_loop draw (nat nParticles) 1 (candidates draw 0 (nat nParticles))))"

text \<open>
  For reasoning about the loop: the value of \<open>startingPositions\<close> after \<open>j\<close>
  retries when the exit test is ignored, and the exit test itself.
\<close>

definition retry :: "rng \<Rightarrow> nat \<Rightarrow> nat \<Rightarrow> vec3 list \<Rightarrow> vec3 list" where
  "retry draw n k sp = masked_overwrite (close_mask sp (r_array n)) (candidates draw k n) sp"

definition all_close :: "nat \<Rightarrow> vec3 list \<Rightarrow> bool" where
  "all_close n sp = np_all (close_mask sp (r_array n))"

primrec loop_state :: "rng \<Rightarrow> nat \<Rightarrow> nat \<Rightarrow> vec3 list" where
  "loop_state draw n 0 = candidates draw 0 n"
| "loop_state draw n (Suc j) = retry draw n (Suc j) (loop_state draw n j)"

text \<open>
  What an exit of the loop started in the state after \<open>j\<close> retries means: the
  result is the first later state in which every row passes the test.
\<close>

definition exits_at :: "rng \<Rightarrow> nat \<Rightarrow> nat \<Rightarrow> vec3 list \<Rightarrow> vec3 list \<Rightarrow> bool" where
  "exits_at draw n k sp ps \<longleftrightarrow>
     (\<forall>j. k = Suc j \<and> sp = loop_state draw n j \<longrightarrow>
           (\<exists>m\<ge>j. ps = loop_state draw n m \<and> all_close n ps \<and>
                  (\<forall>i. j \<le> i \<and> i < m \<longrightarrow> \<not> all_close n (loop_state draw n i))))"

section \<open>Building the system\<close>

text \<open>
  The ensemble parameters of the notebook, the quantities read in the units the
  notebook gives them (amu, kelvin, 1/picosecond, femtosecond). The particle count
  is a Python integer.
\<close>

record config =
  nParticles :: int
  mass :: real
  temperature :: real
  friction :: real
  timestep :: real

definition notebook_config :: config where
  "notebook_config =
     \<lparr>nParticles = 10, mass = 1000, temperature = 750, friction = 100, timestep = 10.0\<rparr>"

text \<open>
  The calls the notebook makes into the simulation engine, in the order it makes
  them. The engine is external: a call is recorded with its arguments.
\<close>

datatype engine_call =
    NewCustomExternalForce string
  | NewSystem
  | NewTopology
  | AddChain string
  | AddResidue string
  | GetElementBySymbol string
  | SystemAddParticle real
  | ForceAddParticle nat
  | TopologyAddAtom string nat
  | SystemAddForce
  | NewLangevinMiddleIntegrator real real real
  | NewSimulation
  | SetPositions "vec3 list"
  | SetVelocitiesToTemperature real

text \<open>
  \<open>TwoDFunnel()\<close>: the constructor hands the expression to the constructor of
  the base class.
\<close>

definition TwoDFunnel_init :: engine_call where
  "TwoDFunnel_init = NewCustomExternalForce expression"

text \<open>\<open>str(i)\<close> for a non-negative integer: its decimal digits.\<close>

fun str :: "nat \<Rightarrow> string" where
  "str i = (if i < 10 then [char_of (48 + i)] else str (i div 10) @ [char_of (48 + i mod 10)])"

declare str.simps [simp del]

text \<open>
  The body of \<open>for i in range(nParticles)\<close>: \<open>system.addParticle\<close> returns the
  index of the new particle, which is \<open>i\<close>.
\<close>

definition add_particle :: "config \<Rightarrow> nat \<Rightarrow> engine_call list" where
  "add_particle c i =
     [SystemAddParticle (mass c), ForceAddParticle i, TopologyAddAtom (''X'' @ str i) i]"

definition build_system :: "config \<Rightarrow> engine_call list" where
  "build_system c =
     [TwoDFunnel_init, NewSystem, NewTopology, AddChain ''A'', AddResidue ''1'',
      GetElementBySymbol ''H'', TwoDFunnel_init]
     @ concat (map (add_particle c) [0..<nat (nParticles c)])
     @ [SystemAddForce]"

definition define_objects :: "config \<Rightarrow> vec3 list \<Rightarrow> engine_call list" where
  "define_objects c startingPositions =
     [NewLangevinMiddleIntegrator (temperature c) (friction c) (timestep c), NewSimulation,
      SetPositions startingPositions, SetVelocitiesToTemperature (temperature c)]"

text \<open>
  The engine is external, and each of its calls may raise. \<open>accepts made call\<close>
  says whether the engine carries out \<open>call\<close> after the calls \<open>made\<close>; a call
  it refuses raises an exception, and the notebook ends there. A run gives the
  calls that were carried out and the error that ended it, if any.
\<close>

datatype setup_error = NumpyError error | EngineError engine_call

fun engine_run ::
    "(engine_call list \<Rightarrow> engine_call \<Rightarrow> bool) \<Rightarrow> engine_call list \<Rightarrow> engine_call list
       \<Rightarrow> engine_call list \<times> setup_error option" where
  "engine_run accepts made [] = (made, None)"
| "engine_run accepts made (call # calls) =
     (if accepts made call then engine_run accepts (made @ [call]) calls
      else (made, Some (EngineError call)))"

text \<open>
  The notebook from the parameters to the simulation context: the starting
  positions, then the engine calls. There is no statement between the parameters
  and the first engine call that inspects them.
\<close>

definition notebook_setup ::
    "(engine_call list \<Rightarrow> engine_call \<Rightarrow> bool) \<Rightarrow> rng \<Rightarrow> config
       \<Rightarrow> (engine_call list \<times> setup_error option) option" where
  "notebook_setup accepts draw c =
     (case starting_positions draw (nParticles c) of
        None \<Rightarrow> None
      | Some (Inl e) \<Rightarrow> Some ([], Some (NumpyError e))
      | Some (Inr startingPositions) \<Rightarrow>
          Some (engine_run accepts [] (build_system c @ define_objects c startingPositions)))"

text \<open>
  An engine that is as strict as an engine can be about the ensemble parameters:
  it refuses a non-positive mass and a non-positive timestep at the call that
  carries it, and a simulation of a system without particles.
\<close>

definition is_add_particle :: "engine_call \<Rightarrow> bool" where
  "is_add_particle call = (case call of SystemAddParticle m \<Rightarrow> True | _ \<Rightarrow> False)"

definition strict_engine :: "engine_call list \<Rightarrow> engine_call \<Rightarrow> bool" where
  "strict_engine made call =
     (case call of
        SystemAddParticle m \<Rightarrow> 0 < m
      | NewLangevinMiddleIntegrator T f dt \<Rightarrow> 0 < dt
      | NewSimulation \<Rightarrow> list_ex is_add_particle made
      | _ \<Rightarrow> True)"

text \<open>
  The invalid configurations, in the words of the specification: a non-positive
  mass, a non-positive timestep, a zero or negative particle count.
\<close>

definition invalid_config :: "config \<Rightarrow> bool" where
  "invalid_config c \<longleftrightarrow> mass c \<le> 0 \<or> timestep c \<le> 0 \<or> nParticles c \<le> 0"

section \<open>The sampling loop\<close>

text \<open>
  The engine state \<open>'s\<close> (the simulation context with its integrator, \<open>ctx\<close>
  below) is external. One
  integrator step is \<open>step\<close>, so \<open>integrator.step(k)\<close> is \<open>step ^^ k\<close>, and
  \<open>getPositions\<close> reads the positions, one row per particle. What the loop does
  to the outside is a list of events, the oldest first.
\<close>

datatype event =
    Scatter "real list" "real list"
  | IntegratorStep nat

text \<open>\<open>x[:,0]\<close> and \<open>x[:,1]\<close>\<close>

definition column0 :: "vec3 list \<Rightarrow> real list" where
  "column0 x = map fst x"

definition column1 :: "vec3 list \<Rightarrow> real list" where
  "column1 x = map (\<lambda>p. fst (snd p)) x"

text \<open>
  One pass through the body of \<open>for i in range(numberOfSamples)\<close>: read the
  positions, scatter them, then step.
\<close>

definition sample_once ::
    "('s \<Rightarrow> 's) \<Rightarrow> ('s \<Rightarrow> vec3 list) \<Rightarrow> nat \<Rightarrow> 's \<times> event list \<Rightarrow> 's \<times> event list" where
  "sample_once step getPositions stepsPerSample st =
     (case st of (ctx, events) \<Rightarrow>
        let x = getPositions ctx;
            events1 = events @ [Scatter (column0 x) (column1 x)];
            ctx1 = (step ^^ stepsPerSample) ctx
        in (ctx1, events1 @ [IntegratorStep stepsPerSample]))"

primrec sampling_loop ::
    "('s \<Rightarrow> 's) \<Rightarrow> ('s \<Rightarrow> vec3 list) \<Rightarrow> nat \<Rightarrow> nat \<Rightarrow> 's \<times> event list \<Rightarrow> 's \<times> event list" where
  "sampling_loop step getPositions stepsPerSample 0 st = st"
| "sampling_loop step getPositions stepsPerSample (Suc numberOfSamples) st =
     sampling_loop step getPositions stepsPerSample numberOfSamples
       (sample_once step getPositions stepsPerSample st)"

text \<open>The loop of the notebook: \<open>range(1000)\<close> and \<open>integrator.step(250)\<close>.\<close>

definition notebook_sampling :: "('s \<Rightarrow> 's) \<Rightarrow> ('s \<Rightarrow> vec3 list) \<Rightarrow> 's \<Rightarrow> 's \<times> event list" where
  "notebook_sampling step getPositions ctx =
     sampling_loop step getPositions 250 1000 (ctx, [])"

text \<open>The snapshots among the events, in order.\<close>

fun snapshots :: "event list \<Rightarrow> (real list \<times> real list) list" where
  "snapshots [] = []"
| "snapshots (Scatter xs ys # es) = (xs, ys) # snapshots es"
| "snapshots (IntegratorStep k # es) = snapshots es"

text \<open>
  The events of iteration \<open>i\<close> of a run from \<open>ctx\<close>: the snapshot of the state
  reached by the steps of the iterations before it, then this iteration's steps.
\<close>

definition iteration_events ::
    "('s \<Rightarrow> 's) \<Rightarrow> ('s \<Rightarrow> vec3 list) \<Rightarrow> nat \<Rightarrow> 's \<Rightarrow> nat \<Rightarrow> event list" where
  "iteration_events step getPositions stepsPerSample ctx i =
     [Scatter (column0 (getPositions ((step ^^ (stepsPerSample * i)) ctx)))
              (column1 (getPositions ((step ^^ (stepsPerSample * i)) ctx))),
      IntegratorStep stepsPerSample]"

section \<open>Plotting\<close>

text \<open>
  The values a keyword argument of \<open>plot\<close> can have here: \<open>None\<close>, an axes
  object (named by a number), a float, a string. A contour is drawn on the
  \<open>matplotlib.pyplot\<close> module, which draws on the current axes of the process, or
  on the object that was supplied.
\<close>

datatype pyval = PyNone | PyAxes nat | PyFloat real | PyStr string

datatype target = Pyplot | Object pyval

record plot_args =
  ax :: pyval
  minx :: pyval
  maxx :: pyval
  miny :: pyval
  maxy :: pyval
  kwargs :: "(string \<times> pyval) list"

text \<open>
  Python's binding of a call \<open>TwoDFunnel.plot(**kw)\<close> to the signature
  \<open>plot(cls, ax=None, minx=-11.0, maxx=11.0, miny=-11.0, maxy=11.0, **kwargs)\<close>:
  a keyword that names a parameter is bound to it, whatever its value, a
  parameter without a keyword has its default, the other keywords are collected
  in \<open>kwargs\<close>.
\<close>

definition arg_or :: "pyval \<Rightarrow> pyval option \<Rightarrow> pyval" where
  "arg_or d v = (case v of None \<Rightarrow> d | Some u \<Rightarrow> u)"

definition bind_plot :: "(string \<times> pyval) list \<Rightarrow> plot_args" where
  "bind_plot kw =
     \<lparr>ax = arg_or PyNone (map_of kw ''ax''),
      minx = arg_or (PyFloat (- 11.0)) (map_of kw ''minx''),
      maxx = arg_or (PyFloat 11.0) (map_of kw ''maxx''),
      miny = arg_or (PyFloat (- 11.0)) (map_of kw ''miny''),
      maxy = arg_or (PyFloat 11.0) (map_of kw ''maxy''),
      kwargs = filter (\<lambda>(k, v). k \<notin> set [''ax'', ''minx'', ''maxx'', ''miny'', ''maxy'']) kw\<rparr>"

text \<open>\<open>kwargs.pop(key, None)\<close>: the value and the dictionary without the key.\<close>

definition pop :: "(string \<times> pyval) list \<Rightarrow> string \<Rightarrow> pyval \<times> (string \<times> pyval) list" where
  "pop d key =
     ((case map_of d key of None \<Rightarrow> PyNone | Some v \<Rightarrow> v), filter (\<lambda>(k, v). k \<noteq> key) d)"

text \<open>
  The rendering requests of \<open>plot\<close>. The grid \<open>np.mgrid[minx:maxx:grid_width,
  miny:maxy:grid_width]\<close> and the values of \<open>potential\<close> on it are given by the
  bounds and the width; \<open>8\<close> is the number of levels and \<open>3\<close> is \<open>nchunk\<close>.
\<close>

datatype render =
    Contourf target real real real real real nat nat "(string \<times> pyval) list"
  | Colorbar

text \<open>
  The subtraction of the bounds needs numbers: \<open>None\<close>, a string or an object
  raises \<open>TypeError\<close>.
\<close>

definition as_float :: "pyval \<Rightarrow> real option" where
  "as_float v = (case v of PyFloat r \<Rightarrow> Some r | _ \<Rightarrow> None)"

text \<open>
  The number of points \<open>np.mgrid\<close> puts on an axis from \<open>lo\<close> to \<open>hi\<close> with step
  \<open>w\<close>, the ceiling of \<open>(hi - lo) / w\<close>. \<open>np.mgrid\<close> raises \<open>ZeroDivisionError\<close>
  for a step of zero and \<open>ValueError\<close> for a negative number of points, and
  \<open>contourf\<close> raises \<open>TypeError\<close> for a grid with fewer than two points on an
  axis.
\<close>

definition grid_points :: "real \<Rightarrow> real \<Rightarrow> real \<Rightarrow> int" where
  "grid_points lo hi w = \<lceil>(hi - lo) / w\<rceil>"

definition plot :: "plot_args \<Rightarrow> error + render list" where
  "plot a =
     (case (as_float (minx a), as_float (maxx a), as_float (miny a), as_float (maxy a)) of
        (Some x0, Some x1, Some y0, Some y1) \<Rightarrow>
          (let grid_res = 1000;
               grid_width = max (x1 - x0) (y1 - y0) / grid_res;
               (ax1, kwargs1) = pop (kwargs a) ''ax'';
               nx = grid_points x0 x1 grid_width;
               ny = grid_points y0 y1 grid_width;
               ax2 = (if ax1 = PyNone then Pyplot else Object ax1)
           in if grid_width = 0 then Inl ZeroDivisionError
              else if nx < 0 \<or> ny < 0 then Inl ValueError
              else if nx < 2 \<or> ny < 2 then Inl TypeError
              else Inr [Contourf ax2 x0 x1 y0 y1 grid_width 8 3 kwargs1, Colorbar])
      | _ \<Rightarrow> Inl TypeError)"

text \<open>The target of the contour request of a call.\<close>

fun contour_targets :: "render list \<Rightarrow> target list" where
  "contour_targets [] = []"
| "contour_targets (Contourf t x0 x1 y0 y1 w l c kw # rs) = t # contour_targets rs"
| "contour_targets (Colorbar # rs) = contour_targets rs"

section \<open>Properties of the potential\<close>

lemma potential_radius_form:
  "potential x y =
     2 * cos (2 * sqrt (x\<^sup>2 + y\<^sup>2)) - 8 * exp (- (x\<^sup>2 + y\<^sup>2))
       + 0.2 * ((x\<^sup>2 + y\<^sup>2) / 64) ^ 3"
proof -
  have "(x / 8)\<^sup>2 + (y / 8)\<^sup>2 = (x\<^sup>2 + y\<^sup>2) / 64"
    by (simp add: power_divide add_divide_distrib)
  then show ?thesis
    unfolding potential_def by (simp only:)
qed

text \<open>
  Claim C4. For every \<open>(x, y)\<close> the scalar evaluation \<open>potential\<close> is the in-plane
  part of the energy: it equals the full closed form at \<open>z = 0\<close>.
\<close>

theorem potential_is_E_at_z0: "potential x y = E_spec x y 0"
  unfolding potential_def E_spec_def by simp

text \<open>
  Claim C5. The potential is radially symmetric: it takes the same value at
  \<open>(x, y)\<close> and \<open>(-x, -y)\<close>, and any two points of equal radius
  \<open>sqrt (x\<^sup>2 + y\<^sup>2)\<close> have equal potential.
\<close>

theorem potential_radially_symmetric:
  "potential x y = potential (- x) (- y) \<and>
   (sqrt (x1\<^sup>2 + y1\<^sup>2) = sqrt (x2\<^sup>2 + y2\<^sup>2) \<longrightarrow> potential x1 y1 = potential x2 y2)"
proof
  show "potential x y = potential (- x) (- y)"
    unfolding potential_def by simp
next
  show "sqrt (x1\<^sup>2 + y1\<^sup>2) = sqrt (x2\<^sup>2 + y2\<^sup>2) \<longrightarrow> potential x1 y1 = potential x2 y2"
  proof
    assume "sqrt (x1\<^sup>2 + y1\<^sup>2) = sqrt (x2\<^sup>2 + y2\<^sup>2)"
    then have "x1\<^sup>2 + y1\<^sup>2 = x2\<^sup>2 + y2\<^sup>2"
      by simp
    then show "potential x1 y1 = potential x2 y2"
      by (simp only: potential_radius_form)
  qed
qed

theorem potential_radially_symmetric_witness:
  "potential 3 4 = potential (- 3) (- 4) \<and>
   sqrt (3\<^sup>2 + 4\<^sup>2) = sqrt (5\<^sup>2 + 0\<^sup>2) \<and> potential 3 4 = potential 5 0"
proof -
  have r: "sqrt ((3::real)\<^sup>2 + 4\<^sup>2) = sqrt (5\<^sup>2 + 0\<^sup>2)"
    by simp
  show ?thesis
    using potential_radially_symmetric [of 3 4 3 4 5 0] r by blast
qed

section \<open>Properties of the rejection loop\<close>

subsection \<open>Shapes and rows\<close>

lemma length_candidates: "length (candidates draw k n) = n"
  by (simp add: candidates_def np_random_rand_def)

lemma length_close_mask: "length sp = n \<Longrightarrow> length (close_mask sp (r_array n)) = n"
  by (simp add: close_mask_def r_array_def)

lemma length_masked_overwrite:
  "length m = n \<Longrightarrow> length new = n \<Longrightarrow> length prev = n \<Longrightarrow>
     length (masked_overwrite m new prev) = n"
  by (simp add: masked_overwrite_def)

lemma length_retry: "length sp = n \<Longrightarrow> length (retry draw n k sp) = n"
  by (simp add: retry_def length_masked_overwrite length_close_mask length_candidates)

lemma length_loop_state: "length (loop_state draw n j) = n"
  by (induction j) (simp_all add: length_candidates length_retry)

lemma close_mask_nth:
  "length sp = n \<Longrightarrow> i < n \<Longrightarrow>
     close_mask sp (r_array n) ! i = isclose (sum_squares (sp ! i)) (10\<^sup>2)"
  by (simp add: close_mask_def r_array_def)

lemma masked_overwrite_nth:
  "length m = n \<Longrightarrow> length new = n \<Longrightarrow> length prev = n \<Longrightarrow> i < n \<Longrightarrow>
     masked_overwrite m new prev ! i = (if m ! i then prev ! i else new ! i)"
  by (simp add: masked_overwrite_def row_plus_def row_times_def split: prod.splits)

lemma retry_nth:
  "length sp = n \<Longrightarrow> i < n \<Longrightarrow>
     retry draw n k sp ! i =
       (if isclose (sum_squares (sp ! i)) (10\<^sup>2) then sp ! i else candidates draw k n ! i)"
  by (simp add: retry_def masked_overwrite_nth length_close_mask length_candidates close_mask_nth)

lemma all_close_iff:
  "length sp = n \<Longrightarrow>
     all_close n sp \<longleftrightarrow> (\<forall>i<n. isclose (sum_squares (sp ! i)) (10\<^sup>2))"
  by (simp add: all_close_def np_all_def list_all_length length_close_mask close_mask_nth)

lemma candidates_nth_z: "i < n \<Longrightarrow> snd (snd (candidates draw k n ! i)) = 0"
  by (simp add: candidates_def np_random_rand_def candidate_def split: prod.splits)

lemma loop_state_nth_z: "i < n \<Longrightarrow> snd (snd (loop_state draw n j ! i)) = 0"
proof (induction j)
  case 0
  then show ?case by (simp add: candidates_nth_z)
next
  case (Suc j)
  then show ?case
    by (simp add: retry_nth length_loop_state candidates_nth_z)
qed

lemma loop_state_z:
  assumes "p \<in> set (loop_state draw n j)"
  shows "snd (snd p) = 0"
proof -
  from assms obtain i where "i < n" "p = loop_state draw n j ! i"
    by (auto simp add: in_set_conv_nth length_loop_state)
  then show ?thesis
    by (simp add: loop_state_nth_z)
qed

subsection \<open>The states the loop runs through\<close>

lemma reject_loop_unfold:
  "reject_loop draw n k sp =
     (if all_close n sp then Some sp else reject_loop draw n (Suc k) (retry draw n k sp))"
  by (subst reject_loop.simps) (simp add: Let_def all_close_def retry_def)

lemma reject_loop_exit_state:
  assumes "reject_loop draw n k sp = Some ps"
  shows "exits_at draw n k sp ps"
proof (rule reject_loop.raw_induct [where P = exits_at, OF _ assms])
  fix loop :: "rng \<Rightarrow> nat \<Rightarrow> nat \<Rightarrow> vec3 list \<Rightarrow> vec3 list option"
    and draw n k sp ps
  assume IH: "\<And>draw n k sp ps. loop draw n k sp = Some ps \<Longrightarrow> exits_at draw n k sp ps"
    and body: "(let mask_arr = close_mask sp (r_array n) in
      if np_all mask_arr then Some sp
      else loop draw n (Suc k) (masked_overwrite mask_arr (candidates draw k n) sp)) = Some ps"
  show "exits_at draw n k sp ps"
    unfolding exits_at_def
  proof (intro allI impI)
    fix j
    assume kj: "k = Suc j \<and> sp = loop_state draw n j"
    then have k: "k = Suc j" and sp: "sp = loop_state draw n j"
      by blast+
    show "\<exists>m\<ge>j. ps = loop_state draw n m \<and> all_close n ps \<and>
                  (\<forall>i. j \<le> i \<and> i < m \<longrightarrow> \<not> all_close n (loop_state draw n i))"
    proof (cases "all_close n sp")
      case True
      then have "np_all (close_mask sp (r_array n))"
        by (simp add: all_close_def)
      with body have "Some sp = Some ps"
        by (simp only: Let_def if_True)
      then have ps: "ps = loop_state draw n j"
        using sp by simp
      from True sp have "all_close n (loop_state draw n j)"
        by simp
      with ps show ?thesis
        by (intro exI [of _ j]) auto
    next
      case False
      then have "\<not> np_all (close_mask sp (r_array n))"
        by (simp add: all_close_def)
      with body have "loop draw n (Suc k)
          (masked_overwrite (close_mask sp (r_array n)) (candidates draw k n) sp) = Some ps"
        by (simp only: Let_def if_False)
      then have step: "loop draw n (Suc k) (retry draw n k sp) = Some ps"
        by (simp only: retry_def)
      have next_state: "retry draw n k sp = loop_state draw n (Suc j)"
        by (simp only: k sp loop_state.simps)
      from IH [OF step] have
        "Suc k = Suc (Suc j) \<and> retry draw n k sp = loop_state draw n (Suc j) \<longrightarrow>
           (\<exists>m\<ge>Suc j. ps = loop_state draw n m \<and> all_close n ps \<and>
              (\<forall>i. Suc j \<le> i \<and> i < m \<longrightarrow> \<not> all_close n (loop_state draw n i)))"
        unfolding exits_at_def by (rule spec)
      with k next_state
      obtain m where m: "Suc j \<le> m" "ps = loop_state draw n m" "all_close n ps"
        "\<forall>i. Suc j \<le> i \<and> i < m \<longrightarrow> \<not> all_close n (loop_state draw n i)"
        by blast
      have "\<forall>i. j \<le> i \<and> i < m \<longrightarrow> \<not> all_close n (loop_state draw n i)"
      proof (intro allI impI)
        fix i assume i: "j \<le> i \<and> i < m"
        show "\<not> all_close n (loop_state draw n i)"
        proof (cases "i = j")
          case True
          with False sp show ?thesis by simp
        next
          case False
          with i have "Suc j \<le> i \<and> i < m" by arith
          with m(4) show ?thesis by blast
        qed
      qed
      moreover from m(1) have "j \<le> m" by simp
      ultimately show ?thesis
        using m(2,3) by blast
    qed
  qed
qed

lemma reject_loop_terminates:
  "all_close n (loop_state draw n (j + d)) \<Longrightarrow>
     \<exists>ps. reject_loop draw n (Suc j) (loop_state draw n j) = Some ps"
proof (induction d arbitrary: j)
  case 0
  then show ?case
    by (subst reject_loop_unfold) simp
next
  case (Suc d)
  from Suc.prems have "all_close n (loop_state draw n (Suc j + d))"
    by simp
  from Suc.IH [OF this] show ?case
    by (subst reject_loop_unfold) simp
qed

lemma starting_positions_exit_state:
  assumes "starting_positions draw N = Some (Inr ps)"
  shows "\<exists>m. ps = loop_state draw (nat N) m \<and> all_close (nat N) ps \<and>
             (\<forall>i<m. \<not> all_close (nat N) (loop_state draw (nat N) i))"
proof -
  from assms have "reject_loop draw (nat N) (Suc 0)
      (loop_state draw (nat N) 0) = Some ps"
    by (auto simp add: starting_positions_def split: if_splits)
  from reject_loop_exit_state [OF this] show ?thesis
    unfolding exits_at_def by blast
qed

subsection \<open>Accepted positions\<close>

text \<open>
  Claim C3. When the rejection loop terminates with the positions \<open>ps\<close>, there are
  \<open>N\<close> of them and all pass the closeness test of the loop at once: every
  row satisfies \<open>|x\<^sup>2 + y\<^sup>2 - r\<^sup>2| \<le> atol + rtol * r\<^sup>2\<close> with \<open>r = 10\<close>, hence
  \<open>|x\<^sup>2 + y\<^sup>2 - r\<^sup>2| < tolerance\<close> for every tolerance above that bound. The loop
  exits only there: \<open>ps\<close> is the state after some number \<open>m\<close> of retries, and in
  no earlier state did all particles pass.
\<close>

theorem starting_positions_all_close:
  assumes "starting_positions draw N = Some (Inr ps)"
  shows "length ps = nat N \<and>
         np_all (close_mask ps (r_array (nat N))) \<and>
         (\<forall>p\<in>set ps. case p of (x, y, z) \<Rightarrow>
            \<bar>x\<^sup>2 + y\<^sup>2 - 10\<^sup>2\<bar> \<le> atol + rtol * 10\<^sup>2 \<and>
            (\<forall>tolerance. atol + rtol * 10\<^sup>2 < tolerance \<longrightarrow> \<bar>x\<^sup>2 + y\<^sup>2 - 10\<^sup>2\<bar> < tolerance)) \<and>
         (\<exists>m. ps = loop_state draw (nat N) m \<and>
              (\<forall>i<m. \<not> np_all (close_mask (loop_state draw (nat N) i)
                                    (r_array (nat N)))))"
proof -
  let ?n = "nat N"
  from starting_positions_exit_state [OF assms]
  obtain m where m: "ps = loop_state draw ?n m" "all_close ?n ps"
    "\<forall>i<m. \<not> all_close ?n (loop_state draw ?n i)"
    by blast
  have len: "length ps = ?n"
    by (simp add: m(1) length_loop_state)
  have rows: "case p of (x, y, z) \<Rightarrow>
            \<bar>x\<^sup>2 + y\<^sup>2 - 10\<^sup>2\<bar> \<le> atol + rtol * 10\<^sup>2 \<and>
            (\<forall>tolerance. atol + rtol * 10\<^sup>2 < tolerance \<longrightarrow> \<bar>x\<^sup>2 + y\<^sup>2 - 10\<^sup>2\<bar> < tolerance)"
    if p: "p \<in> set ps" for p
  proof -
    from p len obtain i where i: "i < ?n" "p = ps ! i"
      by (auto simp add: in_set_conv_nth)
    from m(2) len i have c: "isclose (sum_squares p) (10\<^sup>2)"
      by (simp add: all_close_iff)
    from p m(1) have z: "snd (snd p) = 0"
      by (simp add: loop_state_z)
    obtain x y z' where xyz: "p = (x, y, z')"
      by (cases p) auto
    with z have "z' = 0" by simp
    with c xyz have "\<bar>x\<^sup>2 + y\<^sup>2 - 10\<^sup>2\<bar> \<le> atol + rtol * 10\<^sup>2"
      by (simp add: isclose_def sum_squares_def)
    with xyz show ?thesis by auto
  qed
  from m(3) have early: "\<forall>i<m. \<not> np_all (close_mask (loop_state draw ?n i) (r_array ?n))"
    by (simp add: all_close_def)
  from m(2) have "np_all (close_mask ps (r_array ?n))"
    by (simp add: all_close_def)
  with len rows m(1) early show ?thesis
    by blast
qed

theorem starting_positions_all_close_witness:
  "starting_positions (\<lambda>k i. if k = 0 then (if i = 0 then (0, 1/2, 1/3) else (1/2, 1/2, 1/2)) else (1/2, 0, 7/10)) 2
      = Some (Inr [(- 10, 0, 0), (0, - 10, 0)]) \<and>
   np_all (close_mask [(- 10, 0, 0), (0, - 10, 0)] (r_array (nat 2)))"
proof -
  have h: "starting_positions (\<lambda>k i. if k = 0 then (if i = 0 then (0, 1/2, 1/3) else (1/2, 1/2, 1/2)) else (1/2, 0, 7/10)) 2
      = Some (Inr [(- 10, 0, 0), (0, - 10, 0)])"
    by code_simp
  from starting_positions_all_close [OF h] h show ?thesis
    by blast
qed

text \<open>
  Claim C9. A retry draws candidates for all \<open>n\<close> particles, and the masked
  overwrite replaces only the rows that failed the closeness test: a row whose mask
  entry is true is the same after the retry, a row whose entry is false becomes the
  new candidate.
\<close>

theorem masked_overwrite_keeps_accepted:
  assumes "length sp = n" and "i < n"
  shows "length (candidates draw k n) = n \<and>
         length (masked_overwrite (close_mask sp (r_array n)) (candidates draw k n) sp) = n \<and>
         close_mask sp (r_array n) ! i = isclose (sum_squares (sp ! i)) ((r_array n ! i)\<^sup>2) \<and>
         (close_mask sp (r_array n) ! i \<longrightarrow>
            masked_overwrite (close_mask sp (r_array n)) (candidates draw k n) sp ! i = sp ! i) \<and>
         (\<not> close_mask sp (r_array n) ! i \<longrightarrow>
            masked_overwrite (close_mask sp (r_array n)) (candidates draw k n) sp ! i
              = candidates draw k n ! i)"
proof -
  have l: "length (close_mask sp (r_array n)) = n"
    using assms(1) by (rule length_close_mask)
  have c: "length (candidates draw k n) = n"
    by (rule length_candidates)
  have r: "r_array n ! i = 10"
    using assms(2) by (simp add: r_array_def)
  show ?thesis
    using assms l c r
    by (simp add: masked_overwrite_nth length_masked_overwrite close_mask_nth)
qed

theorem masked_overwrite_keeps_accepted_witness:
  "masked_overwrite (close_mask [(- 10, 0, 0), (0, 0, 0)] (r_array 2))
       (candidates (\<lambda>k i. (1/2, 0, 7/10)) 1 2) [(- 10, 0, 0), (0, 0, 0)] ! 0 = (- 10, 0, 0) \<and>
   masked_overwrite (close_mask [(- 10, 0, 0), (0, 0, 0)] (r_array 2))
       (candidates (\<lambda>k i. (1/2, 0, 7/10)) 1 2) [(- 10, 0, 0), (0, 0, 0)] ! 1 = (0, - 10, 0)"
proof -
  have l: "length [(- 10, 0, 0), (0, 0, 0) :: vec3] = 2"
    by simp
  have m0: "close_mask [(- 10, 0, 0), (0, 0, 0)] (r_array 2) ! 0"
    by code_simp
  have m1: "\<not> close_mask [(- 10, 0, 0), (0, 0, 0)] (r_array 2) ! 1"
    by code_simp
  have c1: "candidates (\<lambda>k i. (1/2, 0, 7/10)) 1 2 ! 1 = (0, - 10, 0)"
    by code_simp
  from masked_overwrite_keeps_accepted [OF l, of 0 "\<lambda>k i. (1/2, 0, 7/10)" 1] m0
  have a: "masked_overwrite (close_mask [(- 10, 0, 0), (0, 0, 0)] (r_array 2))
       (candidates (\<lambda>k i. (1/2, 0, 7/10)) 1 2) [(- 10, 0, 0), (0, 0, 0)] ! 0 = (- 10, 0, 0)"
    by simp
  from masked_overwrite_keeps_accepted [OF l, of 1 "\<lambda>k i. (1/2, 0, 7/10)" 1] m1 c1
  have b: "masked_overwrite (close_mask [(- 10, 0, 0), (0, 0, 0)] (r_array 2))
       (candidates (\<lambda>k i. (1/2, 0, 7/10)) 1 2) [(- 10, 0, 0), (0, 0, 0)] ! 1 = (0, - 10, 0)"
    by simp
  from a b show ?thesis by simp
qed

lemma close_mask_in_plane:
  assumes "length sp = n" and "\<forall>p\<in>set sp. snd (snd p) = 0"
  shows "close_mask sp (r_array n) = map (\<lambda>(x, y, z). isclose (x\<^sup>2 + y\<^sup>2) (10\<^sup>2)) sp"
proof (rule nth_equalityI)
  show "length (close_mask sp (r_array n)) = length (map (\<lambda>(x, y, z). isclose (x\<^sup>2 + y\<^sup>2) (10\<^sup>2)) sp)"
    using assms(1) by (simp add: length_close_mask)
next
  fix i assume "i < length (close_mask sp (r_array n))"
  with assms(1) have i: "i < n"
    by (simp add: length_close_mask)
  with assms have "snd (snd (sp ! i)) = 0"
    by simp
  then have "sum_squares (sp ! i) = (case sp ! i of (x, y, z) \<Rightarrow> x\<^sup>2 + y\<^sup>2)"
    by (cases "sp ! i") (simp add: sum_squares_def)
  with i assms(1) show "close_mask sp (r_array n) ! i = map (\<lambda>(x, y, z). isclose (x\<^sup>2 + y\<^sup>2) (10\<^sup>2)) sp ! i"
    by (simp add: close_mask_nth split: prod.splits)
qed

text \<open>
  Claim C10. Every candidate position, of the first draw and of every retry, has
  third coordinate \<open>0\<close>, and so has every row of every state of the loop; the sum
  of squares of a row is therefore \<open>x\<^sup>2 + y\<^sup>2\<close>, and the mask computed from the
  three-dimensional sum of squares is the mask of the in-plane radial test.
\<close>

theorem candidates_lie_in_plane:
  "(\<forall>p\<in>set (candidates draw k n). case p of (x, y, z) \<Rightarrow> z = 0 \<and> sum_squares p = x\<^sup>2 + y\<^sup>2) \<and>
   (\<forall>p\<in>set (loop_state draw n j). case p of (x, y, z) \<Rightarrow> z = 0 \<and> sum_squares p = x\<^sup>2 + y\<^sup>2) \<and>
   close_mask (loop_state draw n j) (r_array n)
     = map (\<lambda>(x, y, z). isclose (x\<^sup>2 + y\<^sup>2) (10\<^sup>2)) (loop_state draw n j)"
proof (intro conjI ballI)
  fix p assume "p \<in> set (candidates draw k n)"
  then obtain i where "i < n" "p = candidates draw k n ! i"
    by (auto simp add: in_set_conv_nth length_candidates)
  then have "snd (snd p) = 0"
    by (simp add: candidates_nth_z)
  then show "case p of (x, y, z) \<Rightarrow> z = 0 \<and> sum_squares p = x\<^sup>2 + y\<^sup>2"
    by (cases p) (simp add: sum_squares_def)
next
  fix p assume "p \<in> set (loop_state draw n j)"
  then have "snd (snd p) = 0"
    by (rule loop_state_z)
  then show "case p of (x, y, z) \<Rightarrow> z = 0 \<and> sum_squares p = x\<^sup>2 + y\<^sup>2"
    by (cases p) (simp add: sum_squares_def)
next
  show "close_mask (loop_state draw n j) (r_array n)
     = map (\<lambda>(x, y, z). isclose (x\<^sup>2 + y\<^sup>2) (10\<^sup>2)) (loop_state draw n j)"
    by (rule close_mask_in_plane) (simp_all add: length_loop_state loop_state_z)
qed

theorem candidates_lie_in_plane_witness:
  "(0, - 5, 0) \<in> set (candidates (\<lambda>k i. (1/2, 1/4, 1/3)) 0 2) \<and>
   sum_squares (0, - 5, 0) = 0\<^sup>2 + (- 5)\<^sup>2 \<and>
   (- 10, 0, 0) \<in> set (loop_state (\<lambda>k i. (0, 1/2, 1/3)) 2 1) \<and>
   sum_squares (- 10, 0, 0) = (- 10)\<^sup>2 + 0\<^sup>2"
proof -
  have a: "(0, - 5, 0) \<in> set (candidates (\<lambda>k i. (1/2, 1/4, 1/3)) 0 2)"
    by code_simp
  have b: "(- 10, 0, 0) \<in> set (loop_state (\<lambda>k i. (0, 1/2, 1/3)) 2 1)"
    by code_simp
  from candidates_lie_in_plane [of "\<lambda>k i. (1/2, 1/4, 1/3)" 0 2 0] a
  have c: "sum_squares (0, - 5, 0) = 0\<^sup>2 + (- 5)\<^sup>2"
    by fastforce
  from candidates_lie_in_plane [of "\<lambda>k i. (0, 1/2, 1/3)" 0 2 1] b
  have d: "sum_squares (- 10, 0, 0) = (- 10)\<^sup>2 + 0\<^sup>2"
    by fastforce
  from a b c d show ?thesis by blast
qed

subsection \<open>A run that never leaves the loop\<close>

lemma centre_state:
  "loop_state (\<lambda>k i. (1/2, 1/2, 1/2)) n j = replicate n (0, 0, 0)"
proof (induction j)
  case 0
  show ?case
    by (rule nth_equalityI)
       (simp_all add: length_candidates candidates_def np_random_rand_def candidate_def)
next
  case (Suc j)
  show ?case
  proof (rule nth_equalityI)
    show "length (loop_state (\<lambda>k i. (1/2, 1/2, 1/2)) n (Suc j)) = length (replicate n (0::real, 0::real, 0::real))"
      by (simp only: length_loop_state length_replicate)
  next
    fix i assume "i < length (loop_state (\<lambda>k i. (1/2, 1/2, 1/2)) n (Suc j))"
    then have i: "i < n"
      by (simp only: length_loop_state)
    then show "loop_state (\<lambda>k i. (1/2, 1/2, 1/2)) n (Suc j) ! i = replicate n (0, 0, 0) ! i"
      by (simp add: Suc.IH retry_nth candidates_def np_random_rand_def candidate_def
            sum_squares_def isclose_def atol_def rtol_def)
  qed
qed

lemma centre_not_close: "0 < n \<Longrightarrow> \<not> all_close n (replicate n (0, 0, 0))"
  by (auto simp add: all_close_iff isclose_def sum_squares_def atol_def rtol_def)

text \<open>
  Claim C8. The loop has no iteration cap. For a positive particle count there is
  a sequence of draws, all in \<open>[0, 1)\<close>, for which the exit test fails in the
  state after every number \<open>j\<close> of retries, and on which the initialisation never
  returns.
\<close>

theorem reject_loop_can_run_forever:
  assumes "0 < N"
  shows "\<exists>draw. (\<forall>k i. case draw k i of (a, b, c) \<Rightarrow>
                     0 \<le> a \<and> a < 1 \<and> 0 \<le> b \<and> b < 1 \<and> 0 \<le> c \<and> c < 1) \<and>
                (\<forall>j. \<not> np_all (close_mask (loop_state draw (nat N) j)
                                   (r_array (nat N)))) \<and>
                starting_positions draw N = None"
proof (intro exI [of _ "\<lambda>k i. (1/2, 1/2, 1/2)"] conjI)
  let ?d = "\<lambda>(k::nat) (i::nat). (1/2 :: real, 1/2 :: real, 1/2 :: real)"
  let ?n = "nat N"
  from assms have n: "0 < ?n" by simp
  show "\<forall>k i. case ?d k i of (a, b, c) \<Rightarrow>
                     0 \<le> a \<and> a < 1 \<and> 0 \<le> b \<and> b < 1 \<and> 0 \<le> c \<and> c < 1"
    by simp
  show never: "\<forall>j. \<not> np_all (close_mask (loop_state ?d ?n j) (r_array ?n))"
    using centre_not_close [OF n] by (simp add: centre_state all_close_def)
  show "starting_positions ?d N = None"
  proof (cases "starting_positions ?d N")
    case None
    then show ?thesis .
  next
    case (Some res)
    with assms obtain ps where "starting_positions ?d N = Some (Inr ps)"
      by (auto simp add: starting_positions_def)
    from starting_positions_exit_state [OF this] never show ?thesis
      by (auto simp add: all_close_def)
  qed
qed

theorem reject_loop_can_run_forever_witness:
  "(0::int) < 10 \<and>
   (\<exists>draw. (\<forall>j. \<not> np_all (close_mask (loop_state draw (nat 10) j) (r_array (nat 10)))) \<and>
           starting_positions draw 10 = None)"
proof -
  have h: "(0::int) < 10" by simp
  from reject_loop_can_run_forever [OF h] h show ?thesis
    by blast
qed

section \<open>Properties of the force-field expression\<close>

lemma parse_expression: "parse expression = Some funnel_tree"
  by code_simp

lemma power_value_2: "power_value b 2 = Some (b\<^sup>2)"
  by (simp add: power_value_def)

lemma power_value_3: "power_value b 3 = Some (b ^ 3)"
  by (simp add: power_value_def)

lemma evaluate_funnel_tree: "evaluate (particle x y z) funnel_tree = Some (E_spec x y z)"
  by (simp add: funnel_tree_def particle_def binary_def function_value_def E_spec_def
        power_value_2 power_value_3)

text \<open>
  Claim C1. The constructor of \<open>TwoDFunnel\<close> passes the expression string to the
  force evaluator, and for every \<open>(x, y, z)\<close> the value of that string is defined
  and is the closed-form energy
  \<open>2*cos(2*sqrt(x\<^sup>2+y\<^sup>2)) - 8*exp(-(x\<^sup>2+y\<^sup>2)) + 0.2*((x/8)\<^sup>2+(y/8)\<^sup>2)^3 + 1000.0*z\<^sup>2\<close>.
\<close>

theorem expression_denotes_E:
  "TwoDFunnel_init = NewCustomExternalForce expression \<and>
   energy expression x y z = Some (E_spec x y z)"
  by (simp add: TwoDFunnel_init_def energy_def parse_expression evaluate_funnel_tree)

section \<open>Properties of the sampling loop\<close>

lemma funpow_twice: "(f ^^ m) ((f ^^ n) x) = (f ^^ (n + m)) x"
  by (simp add: funpow_add add.commute)

lemma iteration_events_shift:
  "iteration_events step gp k ((step ^^ k) ctx) i = iteration_events step gp k ctx (Suc i)"
  by (simp add: iteration_events_def funpow_twice)

lemma sampling_loop_events:
  "sampling_loop step gp k n (ctx, ev) =
     ((step ^^ (k * n)) ctx, ev @ concat (map (iteration_events step gp k ctx) [0..<n]))"
proof (induction n arbitrary: ctx ev)
  case 0
  show ?case by simp
next
  case (Suc n)
  have first: "sample_once step gp k (ctx, ev) =
      ((step ^^ k) ctx, ev @ iteration_events step gp k ctx 0)"
    by (simp add: sample_once_def iteration_events_def Let_def)
  have shift: "map (iteration_events step gp k ((step ^^ k) ctx)) [0..<n] =
      map (iteration_events step gp k ctx) (map Suc [0..<n])"
    by (simp add: iteration_events_shift)
  have split: "[0..<Suc n] = 0 # map Suc [0..<n]"
    by (simp only: map_Suc_upt upt_conv_Cons zero_less_Suc)
  have pow: "(step ^^ (k * n)) ((step ^^ k) ctx) = (step ^^ (k * Suc n)) ctx"
    by (simp add: funpow_twice)
  show ?case
    by (simp only: sampling_loop.simps first Suc.IH shift split pow list.map concat.simps append_assoc)
qed


lemma snapshots_append: "snapshots (es @ fs) = snapshots es @ snapshots fs"
  by (induction es rule: snapshots.induct) simp_all

lemma snapshots_iterations:
  "snapshots (concat (map (iteration_events step gp k ctx) is)) =
     map (\<lambda>i. (column0 (gp ((step ^^ (k * i)) ctx)), column1 (gp ((step ^^ (k * i)) ctx)))) is"
  by (induction "is") (simp_all add: snapshots_append iteration_events_def)

lemma notebook_sampling_snapshots:
  "length (snapshots (snd (notebook_sampling step getPositions ctx))) = 1000"
  by (simp add: notebook_sampling_def sampling_loop_events snapshots_iterations)

text \<open>
  Claim C2, as the code has it. Each iteration first reads the positions back,
  projects them to \<open>(x, y)\<close> and scatters them, and only then performs
  \<open>stepsPerSample\<close> integrator steps: snapshot \<open>i\<close>, counted from \<open>0\<close>, shows the
  state after \<open>stepsPerSample * i\<close> steps, the first one the starting state. A run
  of \<open>numberOfSamples\<close> iterations emits exactly \<open>numberOfSamples\<close> snapshots and
  performs \<open>stepsPerSample * numberOfSamples\<close> steps; when the engine reports \<open>N\<close>
  rows of positions, each snapshot has \<open>N\<close> rows of two columns.
\<close>

theorem sampling_loop_snapshot_before_steps:
  "sampling_loop step getPositions stepsPerSample numberOfSamples (ctx, []) =
     ((step ^^ (stepsPerSample * numberOfSamples)) ctx,
      concat (map (iteration_events step getPositions stepsPerSample ctx) [0..<numberOfSamples])) \<and>
   length (snapshots (snd (sampling_loop step getPositions stepsPerSample numberOfSamples (ctx, []))))
     = numberOfSamples \<and>
   (\<forall>i<numberOfSamples.
      snapshots (snd (sampling_loop step getPositions stepsPerSample numberOfSamples (ctx, []))) ! i
        = (column0 (getPositions ((step ^^ (stepsPerSample * i)) ctx)),
           column1 (getPositions ((step ^^ (stepsPerSample * i)) ctx)))) \<and>
   ((\<forall>c. length (getPositions c) = N) \<longrightarrow>
      (\<forall>l\<in>set (snapshots (snd (sampling_loop step getPositions stepsPerSample numberOfSamples (ctx, [])))).
         length (fst l) = N \<and> length (snd l) = N))"
proof -
  let ?run = "sampling_loop step getPositions stepsPerSample numberOfSamples (ctx, [])"
  let ?snap = "\<lambda>i. (column0 (getPositions ((step ^^ (stepsPerSample * i)) ctx)),
                    column1 (getPositions ((step ^^ (stepsPerSample * i)) ctx)))"
  have run: "?run = ((step ^^ (stepsPerSample * numberOfSamples)) ctx,
      concat (map (iteration_events step getPositions stepsPerSample ctx) [0..<numberOfSamples]))"
    using sampling_loop_events [of step getPositions stepsPerSample numberOfSamples ctx "[]"]
    by simp
  have snaps: "snapshots (snd ?run) = map ?snap [0..<numberOfSamples]"
    by (simp only: run snd_conv snapshots_iterations)
  have count: "length (snapshots (snd ?run)) = numberOfSamples"
    by (simp add: snaps)
  have each: "\<forall>i<numberOfSamples. snapshots (snd ?run) ! i = ?snap i"
    by (simp add: snaps)
  have shape: "(\<forall>c. length (getPositions c) = N) \<longrightarrow>
      (\<forall>l\<in>set (snapshots (snd ?run)). length (fst l) = N \<and> length (snd l) = N)"
    by (auto simp add: snaps column0_def column1_def)
  from run count each shape show ?thesis
    by blast
qed

theorem sampling_loop_snapshot_before_steps_witness:
  "length (snapshots (snd (sampling_loop Suc (\<lambda>c. [(real c, 0, 0)]) 250 2 (0, [])))) = 2 \<and>
   snapshots (snd (sampling_loop Suc (\<lambda>c. [(real c, 0, 0)]) 250 2 (0, []))) ! 1
      = ([250], [0]) \<and>
   length (fst (snapshots (snd (sampling_loop Suc (\<lambda>c. [(real c, 0, 0)]) 250 2 (0, []))) ! 1))
      = 1 \<and>
   length (snd (snapshots (snd (sampling_loop Suc (\<lambda>c. [(real c, 0, 0)]) 250 2 (0, []))) ! 1))
      = 1"
proof -
  let ?gp = "\<lambda>c::nat. [(real c, 0::real, 0::real)]"
  let ?snaps = "snapshots (snd (sampling_loop Suc ?gp 250 2 (0, [])))"
  note run = sampling_loop_snapshot_before_steps [of Suc ?gp 250 2 0 1]
  have rows: "\<forall>c. length (?gp c) = 1"
    by simp
  have one: "(1::nat) < 2"
    by simp
  have steps: "(Suc ^^ (250 * 1)) 0 = 250"
    by code_simp
  from run have count: "length ?snaps = 2"
    by (elim conjE)
  from run have "\<forall>i<2. ?snaps ! i
        = (column0 (?gp ((Suc ^^ (250 * i)) 0)), column1 (?gp ((Suc ^^ (250 * i)) 0)))"
    by (elim conjE)
  with one have "?snaps ! 1
        = (column0 (?gp ((Suc ^^ (250 * 1)) 0)), column1 (?gp ((Suc ^^ (250 * 1)) 0)))"
    by blast
  then have second: "?snaps ! 1 = ([250], [0])"
    by (simp only: steps) (simp add: column0_def column1_def)
  from run have "(\<forall>c. length (?gp c) = 1) \<longrightarrow>
      (\<forall>l\<in>set ?snaps. length (fst l) = 1 \<and> length (snd l) = 1)"
    by (elim conjE)
  with rows have shape: "\<forall>l\<in>set ?snaps. length (fst l) = 1 \<and> length (snd l) = 1"
    by blast
  from count one have "?snaps ! 1 \<in> set ?snaps"
    by (simp only: nth_mem)
  with shape have "length (fst (?snaps ! 1)) = 1 \<and> length (snd (?snaps ! 1)) = 1"
    by blast
  with count second show ?thesis
    by blast
qed

text \<open>
  The claim as the specification words it, steps first and the snapshot after
  them, fails: with an engine whose only particle sits at \<open>x = c\<close> after \<open>c\<close>
  steps, one iteration scatters the position \<open>x = 0\<close> of the start and steps
  afterwards, where the claim has the position \<open>x = 250\<close> scattered after the
  steps.
\<close>

theorem sampling_loop_steps_first_counterexample:
  "snd (sampling_loop Suc (\<lambda>c. [(real c, 0, 0)]) 250 1 (0, []))
      = [Scatter [0] [0], IntegratorStep 250] \<and>
   snd (sampling_loop Suc (\<lambda>c. [(real c, 0, 0)]) 250 1 (0, []))
      \<noteq> [IntegratorStep 250, Scatter [250] [0]] \<and>
   snapshots (snd (sampling_loop Suc (\<lambda>c. [(real c, 0, 0)]) 250 1 (0, [])))
      \<noteq> [(column0 [(real ((Suc ^^ 250) 0), 0, 0)], column1 [(real ((Suc ^^ 250) 0), 0, 0)])]"
proof -
  have steps: "(Suc ^^ 250) 0 = 250"
    by code_simp
  have run: "snd (sampling_loop Suc (\<lambda>c. [(real c, 0, 0)]) 250 1 (0, []))
      = [Scatter [0] [0], IntegratorStep 250]"
    by (simp add: sample_once_def column0_def column1_def Let_def)
  have order: "[Scatter [0] [0], IntegratorStep 250] \<noteq> [IntegratorStep 250, Scatter [250] [0]]"
    by simp
  have first: "snapshots [Scatter [0] [0], IntegratorStep 250]
      \<noteq> [(column0 [(real 250, 0, 0)], column1 [(real 250, 0, 0)])]"
    by (simp add: column0_def column1_def)
  show ?thesis
    unfolding run steps using order first by blast
qed

section \<open>Properties of plotting\<close>

lemma map_of_filter_out:
  "key \<in> S \<Longrightarrow> map_of (filter (\<lambda>(k, v). k \<notin> S) kw) key = None"
  by (induction kw) auto

lemma bind_plot_kwargs_no_ax: "map_of (kwargs (bind_plot kw)) ''ax'' = None"
  unfolding bind_plot_def by (simp only: plot_args.simps map_of_filter_out [of "''ax''"] list.set_intros)

lemma plot_draws_on_pyplot:
  assumes "plot (bind_plot kw) = Inr rs"
  shows "contour_targets rs = [Pyplot]"
proof -
  have "pop (kwargs (bind_plot kw)) ''ax''
      = (PyNone, filter (\<lambda>(k, v). k \<noteq> ''ax'') (kwargs (bind_plot kw)))"
    by (simp add: pop_def bind_plot_kwargs_no_ax)
  with assms show ?thesis
    by (auto simp add: plot_def Let_def split: option.splits if_splits)
qed

text \<open>
  Claim C6 says that \<open>plot\<close> renders onto the axes the caller supplies as \<open>ax\<close>
  and falls back to the process-wide context only without them. The code binds
  the supplied axes to the parameter \<open>ax\<close> and then overwrites it by
  \<open>kwargs.pop('ax', None)\<close>, which is always \<open>None\<close>: for the call
  \<open>TwoDFunnel.plot(ax=A)\<close> the contour is requested from \<open>pyplot\<close>, not from \<open>A\<close>.
\<close>

theorem plot_supplied_axes_ignored:
  "ax (bind_plot [(''ax'', PyAxes 1)]) = PyAxes 1 \<and>
   plot (bind_plot [(''ax'', PyAxes 1)])
     = Inr [Contourf Pyplot (- 11) 11 (- 11) 11 (11 / 500) 8 3 [], Colorbar] \<and>
   map_sum id contour_targets (plot (bind_plot [(''ax'', PyAxes 1)])) = Inr [Pyplot] \<and>
   map_sum id contour_targets (plot (bind_plot [(''ax'', PyAxes 1)])) \<noteq> Inr [Object (PyAxes 1)]"
proof -
  have b: "ax (bind_plot [(''ax'', PyAxes 1)]) = PyAxes 1"
    by (simp add: bind_plot_def arg_or_def)
  have points: "grid_points (- 11) 11 (11 / 500) = 1000"
    by (simp add: grid_points_def)
  have run: "plot (bind_plot [(''ax'', PyAxes 1)])
     = Inr [Contourf Pyplot (- 11) 11 (- 11) 11 (11 / 500) 8 3 [], Colorbar]"
    by (simp add: plot_def bind_plot_def arg_or_def as_float_def pop_def Let_def points)
  from b run show ?thesis
    by simp
qed

section \<open>Properties of the set-up\<close>

lemma engine_run_extends:
  "\<exists>rest err. engine_run accepts made calls = (made @ rest, err)"
proof (induction calls arbitrary: made)
  case Nil
  show ?case by simp
next
  case (Cons call calls)
  show ?case
  proof (cases "accepts made call")
    case True
    from Cons.IH [of "made @ [call]"] obtain rest err
      where "engine_run accepts (made @ [call]) calls = ((made @ [call]) @ rest, err)"
      by blast
    with True have "engine_run accepts made (call # calls) = (made @ (call # rest), err)"
      by simp
    then show ?thesis by blast
  next
    case False
    then have "engine_run accepts made (call # calls) = (made @ [], Some (EngineError call))"
      by simp
    then show ?thesis by blast
  qed
qed

lemma engine_run_first_two:
  assumes "accepts [] a" and "accepts [a] b"
  shows "\<exists>rest err. engine_run accepts [] (a # b # calls) = (a # b # rest, err)"
proof -
  from engine_run_extends [of accepts "[a, b]" calls] obtain rest err
    where "engine_run accepts [a, b] calls = ([a, b] @ rest, err)"
    by blast
  with assms have "engine_run accepts [] (a # b # calls) = (a # b # rest, err)"
    by simp
  then show ?thesis by blast
qed

lemma build_system_starts:
  "\<exists>calls. build_system c @ define_objects c sp = TwoDFunnel_init # NewSystem # calls"
  by (simp add: build_system_def)

lemma starting_positions_zero: "starting_positions draw 0 = Some (Inr [])"
proof -
  have "reject_loop draw 0 1 [] = Some []"
    by (subst reject_loop.simps) (simp add: close_mask_def np_all_def)
  then show ?thesis
    by (simp add: starting_positions_def candidates_def np_random_rand_def)
qed

text \<open>
  Claim C7, as the code has it. The notebook has no check of the ensemble
  parameters. A negative particle count is stopped before any engine call, by the
  \<open>ValueError\<close> of the random draw. Otherwise, once the starting positions are
  found (for a count of zero they always are), the notebook goes through its
  engine calls until the engine refuses one: the force and the system, which take
  no parameter, are constructed first, whatever the mass, the timestep and the
  count are. So an error that comes before any engine object exists means a
  negative count, or an engine that refuses the parameterless constructor.
\<close>

theorem notebook_setup_no_check_before_engine:
  "(nParticles c < 0 \<longrightarrow> notebook_setup accepts draw c = Some ([], Some (NumpyError ValueError))) \<and>
   (nParticles c = 0 \<longrightarrow> starting_positions draw (nParticles c) = Some (Inr [])) \<and>
   (\<forall>sp. starting_positions draw (nParticles c) = Some (Inr sp) \<longrightarrow>
      notebook_setup accepts draw c
        = Some (engine_run accepts [] (build_system c @ define_objects c sp))) \<and>
   (\<forall>sp. starting_positions draw (nParticles c) = Some (Inr sp) \<and>
         accepts [] TwoDFunnel_init \<and> accepts [TwoDFunnel_init] NewSystem \<longrightarrow>
      (\<exists>rest err. notebook_setup accepts draw c
                    = Some (TwoDFunnel_init # NewSystem # rest, err))) \<and>
   (\<forall>e. notebook_setup accepts draw c = Some ([], Some e) \<and> accepts [] TwoDFunnel_init \<longrightarrow>
      nParticles c < 0)"
proof (intro conjI allI impI)
  assume "nParticles c < 0"
  then show "notebook_setup accepts draw c = Some ([], Some (NumpyError ValueError))"
    by (simp add: notebook_setup_def starting_positions_def)
next
  assume "nParticles c = 0"
  then show "starting_positions draw (nParticles c) = Some (Inr [])"
    by (simp only: starting_positions_zero)
next
  fix sp assume "starting_positions draw (nParticles c) = Some (Inr sp)"
  then show "notebook_setup accepts draw c
      = Some (engine_run accepts [] (build_system c @ define_objects c sp))"
    by (simp add: notebook_setup_def)
next
  fix sp
  assume a: "starting_positions draw (nParticles c) = Some (Inr sp) \<and>
      accepts [] TwoDFunnel_init \<and> accepts [TwoDFunnel_init] NewSystem"
  then have run: "notebook_setup accepts draw c
      = Some (engine_run accepts [] (build_system c @ define_objects c sp))"
    by (simp add: notebook_setup_def)
  obtain calls where calls: "build_system c @ define_objects c sp
      = TwoDFunnel_init # NewSystem # calls"
    using build_system_starts by blast
  from a engine_run_first_two [of accepts TwoDFunnel_init NewSystem calls]
  obtain rest err where "engine_run accepts [] (TwoDFunnel_init # NewSystem # calls)
      = (TwoDFunnel_init # NewSystem # rest, err)"
    by blast
  with run calls show "\<exists>rest err. notebook_setup accepts draw c
      = Some (TwoDFunnel_init # NewSystem # rest, err)"
    by simp
next
  fix e
  assume a: "notebook_setup accepts draw c = Some ([], Some e) \<and> accepts [] TwoDFunnel_init"
  show "nParticles c < 0"
  proof (rule ccontr)
    assume "\<not> nParticles c < 0"
    with a obtain sp where sp: "starting_positions draw (nParticles c) = Some (Inr sp)"
      and run: "engine_run accepts [] (build_system c @ define_objects c sp) = ([], Some e)"
      by (auto simp add: notebook_setup_def starting_positions_def split: option.splits)
    obtain calls where calls: "build_system c @ define_objects c sp
        = TwoDFunnel_init # NewSystem # calls"
      using build_system_starts by blast
    from engine_run_extends [of accepts "[TwoDFunnel_init]" "NewSystem # calls"]
    obtain rest err where "engine_run accepts [TwoDFunnel_init] (NewSystem # calls)
        = ([TwoDFunnel_init] @ rest, err)"
      by blast
    with a have "engine_run accepts [] (TwoDFunnel_init # NewSystem # calls)
        = (TwoDFunnel_init # rest, err)"
      by simp
    with run calls show False
      by simp
  qed
qed

text \<open>
  The theorem at a particle count of zero with the strict engine: the starting
  positions are found at once, and the force, the system and the integrator are
  constructed before the engine refuses the simulation.
\<close>

theorem notebook_setup_no_check_before_engine_witness:
  "notebook_setup strict_engine (\<lambda>k i. (0, 1/2, 0))
       \<lparr>nParticles = 0, mass = 1000, temperature = 750, friction = 100, timestep = 10\<rparr>
     = Some ([NewCustomExternalForce expression, NewSystem, NewTopology, AddChain ''A'',
              AddResidue ''1'', GetElementBySymbol ''H'', NewCustomExternalForce expression,
              SystemAddForce, NewLangevinMiddleIntegrator 750 100 10],
             Some (EngineError NewSimulation))"
proof -
  let ?c = "\<lparr>nParticles = 0, mass = 1000, temperature = 750, friction = 100, timestep = 10\<rparr>"
  let ?d = "\<lambda>(k::nat) (i::nat). (0::real, 1/2::real, 0::real)"
  note inst = notebook_setup_no_check_before_engine [of ?c strict_engine ?d]
  from inst have "nParticles ?c = 0 \<longrightarrow> starting_positions ?d (nParticles ?c) = Some (Inr [])"
    by (elim conjE)
  then have sp: "starting_positions ?d (nParticles ?c) = Some (Inr [])"
    by simp
  from inst have "\<forall>sp. starting_positions ?d (nParticles ?c) = Some (Inr sp) \<longrightarrow>
      notebook_setup strict_engine ?d ?c
        = Some (engine_run strict_engine [] (build_system ?c @ define_objects ?c sp))"
    by (elim conjE)
  with sp have "notebook_setup strict_engine ?d ?c
        = Some (engine_run strict_engine [] (build_system ?c @ define_objects ?c []))"
    by blast
  then show ?thesis
    by (simp add: build_system_def define_objects_def TwoDFunnel_init_def strict_engine_def
          is_add_particle_def)
qed

text \<open>
  The claim as the specification words it fails: a configuration with a negative
  mass and a zero timestep is not rejected before engine construction. Even with
  the strict engine, the force, the system and the topology exist when the first
  call that carries the mass is refused.
\<close>

theorem notebook_setup_rejects_invalid_counterexample:
  "invalid_config \<lparr>nParticles = 1, mass = - 1, temperature = 750, friction = 100, timestep = 0\<rparr> \<and>
   notebook_setup strict_engine (\<lambda>k i. (0, 1/2, 0))
       \<lparr>nParticles = 1, mass = - 1, temperature = 750, friction = 100, timestep = 0\<rparr>
     = Some ([NewCustomExternalForce expression, NewSystem, NewTopology, AddChain ''A'',
              AddResidue ''1'', GetElementBySymbol ''H'', NewCustomExternalForce expression],
             Some (EngineError (SystemAddParticle (- 1))))"
proof -
  have c: "invalid_config
      \<lparr>nParticles = 1, mass = - 1, temperature = 750, friction = 100, timestep = 0\<rparr>"
    by (simp add: invalid_config_def)
  have sp: "starting_positions (\<lambda>k i. (0, 1/2, 0)) 1 = Some (Inr [(- 10, 0, 0)])"
    by code_simp
  have run: "notebook_setup strict_engine (\<lambda>k i. (0, 1/2, 0))
       \<lparr>nParticles = 1, mass = - 1, temperature = 750, friction = 100, timestep = 0\<rparr>
     = Some ([NewCustomExternalForce expression, NewSystem, NewTopology, AddChain ''A'',
              AddResidue ''1'', GetElementBySymbol ''H'', NewCustomExternalForce expression],
             Some (EngineError (SystemAddParticle (- 1))))"
    by (simp add: notebook_setup_def sp build_system_def define_objects_def add_particle_def
          TwoDFunnel_init_def strict_engine_def)
  from c run show ?thesis
    by (rule conjI)
qed

end
